theory Spec2Isabelle
  imports Complex_Main "HOL-Library.Multiset"
begin

section \<open>Numbers and text\<close>

text \<open>
  The calculators of \<^verbatim>\<open>app.py\<close> compute with Python floats. They are modelled by
  the reals: every operation is exact, so rounding, overflow and underflow of IEEE doubles
  are not part of the model, and the non-finite floats (\<^verbatim>\<open>inf\<close>, \<^verbatim>\<open>nan\<close>) have no
  counterpart. A parse that yields a non-finite float is kept apart (\<open>NonFinite\<close>), and a
  calculation that would receive one is \<open>None\<close>: the theorems do not speak about it.
  Text is ASCII.
\<close>

datatype pyval = PyNone | PyNum real | PyStr string

definition is_space :: "char \<Rightarrow> bool" where
  "is_space c = (of_char c \<in> {9::nat, 10, 11, 12, 13, 28, 29, 30, 31, 32})"

definition is_digit :: "char \<Rightarrow> bool" where
  "is_digit c = (c \<in> set ''0123456789'')"

definition digit_val :: "char \<Rightarrow> nat" where
  "digit_val c = of_char c - 48"

text \<open>\<^verbatim>\<open>str.strip()\<close>: leading and trailing white space removed.\<close>

definition strip :: "string \<Rightarrow> string" where
  "strip s = rev (dropWhile is_space (rev (dropWhile is_space s)))"

text \<open>\<^verbatim>\<open>str.replace(c, '')\<close> for a single character \<open>c\<close>.\<close>

definition remove_char :: "char \<Rightarrow> string \<Rightarrow> string" where
  "remove_char c s = filter (\<lambda>d. d \<noteq> c) s"

definition lower :: "char \<Rightarrow> char" where
  "lower c = (case map_of (zip ''ABCDEFGHIJKLMNOPQRSTUVWXYZ'' ''abcdefghijklmnopqrstuvwxyz'') c of
                Some d \<Rightarrow> d | None \<Rightarrow> c)"

subsection \<open>The builtin \<^verbatim>\<open>float()\<close> on text\<close>

text \<open>
  \<^verbatim>\<open>float(s)\<close> follows the grammar of the language reference:
  \<^verbatim>\<open>
  digitpart   ::= digit (["_"] digit)*
  number      ::= [digitpart] "." digitpart | digitpart ["."]
  exponent    ::= ("e" | "E") [sign] digitpart
  floatnumber ::= number [exponent]
  floatvalue  ::= [sign] (floatnumber | "inf" | "infinity" | "nan")
  \<close>
  with surrounding white space ignored and the three words read in any case. Anything
  else raises \<^verbatim>\<open>ValueError\<close>.
\<close>

datatype parsed = Finite real | NonFinite | ValueError

fun digitpart :: "string \<Rightarrow> bool" where
  "digitpart [] = False"
| "digitpart [c] = is_digit c"
| "digitpart (c # d # cs) =
     (is_digit c \<and> (if d = CHR ''_'' then digitpart cs else digitpart (d # cs)))"

definition digits_val :: "string \<Rightarrow> nat" where
  "digits_val s = foldl (\<lambda>n c. 10 * n + digit_val c) 0 (filter is_digit s)"

definition num_digits :: "string \<Rightarrow> nat" where
  "num_digits s = length (filter is_digit s)"

definition split_at :: "(char \<Rightarrow> bool) \<Rightarrow> string \<Rightarrow> string \<times> string option" where
  "split_at p s = (case dropWhile (\<lambda>c. \<not> p c) s of
                     [] \<Rightarrow> (s, None)
                   | _ # rest \<Rightarrow> (takeWhile (\<lambda>c. \<not> p c) s, Some rest))"

definition unsigned :: "string \<Rightarrow> bool \<times> string" where
  "unsigned s = (case s of
                   c # cs \<Rightarrow> if c = CHR ''-'' then (True, cs)
                             else if c = CHR ''+'' then (False, cs) else (False, s)
                 | [] \<Rightarrow> (False, s))"

definition number :: "string \<Rightarrow> real option" where
  "number s = (case split_at (\<lambda>c. c = CHR ''.'') s of
       (ip, None) \<Rightarrow> if digitpart ip then Some (real (digits_val ip)) else None
     | (ip, Some fp) \<Rightarrow>
         if (ip = [] \<and> digitpart fp) \<or> (digitpart ip \<and> (fp = [] \<or> digitpart fp))
         then Some (real (digits_val ip) + real (digits_val fp) / 10 ^ num_digits fp)
         else None)"

definition exponent :: "string \<Rightarrow> int option" where
  "exponent s = (case unsigned s of (neg, ds) \<Rightarrow>
       if digitpart ds then Some (if neg then - int (digits_val ds) else int (digits_val ds))
       else None)"

definition scale10 :: "real \<Rightarrow> int \<Rightarrow> real" where
  "scale10 x e = (if 0 \<le> e then x * 10 ^ nat e else x / 10 ^ nat (- e))"

definition floatnumber :: "string \<Rightarrow> real option" where
  "floatnumber s = (case split_at (\<lambda>c. c = CHR ''e'' \<or> c = CHR ''E'') s of
       (m, None) \<Rightarrow> number m
     | (m, Some e) \<Rightarrow>
         (case (number m, exponent e) of
            (Some x, Some k) \<Rightarrow> Some (scale10 x k)
          | _ \<Rightarrow> None))"

definition py_float :: "string \<Rightarrow> parsed" where
  "py_float s = (case unsigned (strip s) of (neg, body) \<Rightarrow>
       if map lower body \<in> {''inf'', ''infinity'', ''nan''} then NonFinite
       else (case floatnumber body of
               None \<Rightarrow> ValueError
             | Some x \<Rightarrow> Finite (if neg then - x else x)))"

subsection \<open>\<^verbatim>\<open>clean_number\<close>\<close>

text \<open>
  \<^verbatim>\<open>
  def clean_number(num_str, is_percentage=False):
      if num_str is None: return 0.0
      if isinstance(num_str, (int, float)):
          val = float(num_str)
          return val / 100.0 if is_percentage and abs(val) >= 1 else val
      cleaned = str(num_str).replace(',', '').replace('%', '').strip()
      if not cleaned: return 0.0
      try:
          val = float(cleaned)
          return val / 100.0 if is_percentage else val
      except ValueError: return 0.0
  \<close>
  The result is \<open>None\<close> exactly when \<^verbatim>\<open>float(cleaned)\<close> is \<^verbatim>\<open>inf\<close> or \<^verbatim>\<open>nan\<close>.
\<close>

definition cleaned :: "string \<Rightarrow> string" where
  "cleaned num_str = strip (remove_char (CHR ''%'') (remove_char (CHR '','') num_str))"

definition clean_number :: "pyval \<Rightarrow> bool \<Rightarrow> real option" where
  "clean_number num_str is_percentage =
     (case num_str of
        PyNone \<Rightarrow> Some 0
      | PyNum val \<Rightarrow> Some (if is_percentage \<and> \<bar>val\<bar> \<ge> 1 then val / 100 else val)
      | PyStr s \<Rightarrow>
          if cleaned s = [] then Some 0
          else (case py_float (cleaned s) of
                  Finite val \<Rightarrow> Some (if is_percentage then val / 100 else val)
                | NonFinite \<Rightarrow> None
                | ValueError \<Rightarrow> Some 0))"

section \<open>Credit Limit Calculator\<close>

datatype industry = Trading | Manufacturing | Contractor

datatype yes_no = Yes | No

text \<open>
  The widgets of the form. Text inputs give strings; the two number inputs give a float and
  an int; the radios give one of their two options; the select box gives \<open>None\<close> until an
  industry is chosen. The unbilled-revenue text is read only for a contractor.
\<close>

record cl_form =
  requested_limit_str :: string
  revenue_str :: string
  net_profit_percentage_str :: string
  current_assets_str :: string
  current_liabilities_str :: string
  exposure_outstanding_str :: string
  industry_type :: "industry option"
  unbilled_revenue_str :: string
  is_saudi :: yes_no
  years_of_operation_str :: real
  has_concentration :: yes_no
  number_of_projects_str :: int
  has_previous_payments :: yes_no
  has_payment_delays :: yes_no

text \<open>\<^verbatim>\<open>int(x)\<close> on a float truncates towards zero.\<close>

definition py_int :: "real \<Rightarrow> int" where
  "py_int x = (if 0 \<le> x then \<lfloor>x\<rfloor> else \<lceil>x\<rceil>)"

text \<open>The cleaned inputs (\<^verbatim>\<open># --- Data Cleaning ---\<close>).\<close>

record cl_inputs =
  requested_limit :: real
  revenue :: real
  net_profit_percentage :: real
  current_assets :: real
  current_liabilities :: real
  exposure_outstanding :: real
  unbilled_revenue :: real
  years_of_operation :: real
  number_of_projects :: int

definition data_cleaning :: "cl_form \<Rightarrow> cl_inputs option" where
  "data_cleaning f =
     (case clean_number (PyStr (requested_limit_str f)) False of None \<Rightarrow> None | Some rl \<Rightarrow>
      case clean_number (PyStr (revenue_str f)) False of None \<Rightarrow> None | Some rv \<Rightarrow>
      case clean_number (PyStr (net_profit_percentage_str f)) True of None \<Rightarrow> None | Some np \<Rightarrow>
      case clean_number (PyStr (current_assets_str f)) False of None \<Rightarrow> None | Some ca \<Rightarrow>
      case clean_number (PyStr (current_liabilities_str f)) False of None \<Rightarrow> None | Some cl \<Rightarrow>
      case clean_number (PyStr (exposure_outstanding_str f)) False of None \<Rightarrow> None | Some ex \<Rightarrow>
      case (if industry_type f = Some Contractor
            then clean_number (PyStr (unbilled_revenue_str f)) False else Some 0) of
        None \<Rightarrow> None | Some ub \<Rightarrow>
      case clean_number (PyNum (years_of_operation_str f)) False of None \<Rightarrow> None | Some yo \<Rightarrow>
      case clean_number (PyNum (of_int (number_of_projects_str f))) False of
        None \<Rightarrow> None | Some pj \<Rightarrow>
      Some \<lparr>requested_limit = rl, revenue = rv, net_profit_percentage = np,
            current_assets = ca, current_liabilities = cl, exposure_outstanding = ex,
            unbilled_revenue = ub, years_of_operation = yo, number_of_projects = py_int pj\<rparr>)"

subsection \<open>Validation\<close>

text \<open>
  \<^verbatim>\<open>errors\<close> is built by appending, test after test, in the order of the source
  (lines 169 to 186); \<^verbatim>\<open>elif\<close> is the inner \<open>if\<close>.
\<close>

definition validation :: "cl_form \<Rightarrow> cl_inputs \<Rightarrow> string list" where
  "validation f i =
     (if requested_limit i \<le> 0 then [''Requested Limit > 0.''] else []) @
     (if revenue i \<le> 0 then [''Revenue > 0.''] else []) @
     (if exposure_outstanding i < 0 then [''Exposure >= 0.''] else []) @
     (if industry_type f = None then [''Industry Type required.''] else []) @
     (if industry_type f = Some Contractor then
        (if strip (unbilled_revenue_str f) = [] then [''Unbilled Revenue required.'']
         else if unbilled_revenue i \<le> 0 then [''Unbilled Revenue > 0.''] else [])
      else []) @
     (if years_of_operation i \<le> 0 then [''Years Op > 0.''] else []) @
     (if number_of_projects i < 1 then [''Projects >= 1.''] else []) @
     (if strip (net_profit_percentage_str f) = [] then [''Net Profit % required.'']
      else if net_profit_percentage i \<le> 0 then [''Net Profit % must be > 0.''] else []) @
     (if strip (current_assets_str f) = [] then [''Current Assets required.''] else []) @
     (if strip (current_liabilities_str f) = [] then [''Current Liabilities required.''] else []) @
     (if current_assets i \<le> 0 then [''Current Assets > 0.''] else []) @
     (if current_liabilities i \<le> 0 then [''Current Liabilities > 0.''] else [])"

definition actual_net_profit :: "cl_inputs \<Rightarrow> real" where
  "actual_net_profit i = (if revenue i > 0 then revenue i * net_profit_percentage i else 0)"

text \<open>
  Division raises on a zero divisor. The ratio stays Python's \<^verbatim>\<open>None\<close> (here \<open>Inr None\<close>)
  unless both amounts are positive.
\<close>

datatype py_error = ZeroDivisionError | TypeError

definition py_div :: "real \<Rightarrow> real \<Rightarrow> py_error + real" where
  "py_div a b = (if b = 0 then Inl ZeroDivisionError else Inr (a / b))"

definition actual_current_ratio :: "cl_inputs \<Rightarrow> py_error + real option" where
  "actual_current_ratio i =
     (if current_liabilities i > 0 \<and> current_assets i > 0
      then (case py_div (current_assets i) (current_liabilities i) of
              Inl e \<Rightarrow> Inl e | Inr q \<Rightarrow> Inr (Some q))
      else Inr None)"

subsection \<open>Eligibility\<close>

text \<open>
  The three reasons of the source; the third carries the ratio that its message prints.
\<close>

datatype eligibility_reason =
    Net_profit_required
  | Valid_assets_liabilities_needed
  | Current_ratio_required real

definition eligibility :: "real \<Rightarrow> real option \<Rightarrow> eligibility_reason list \<times> bool" where
  "eligibility net_profit ratio =
     (let (reasons1, eligible1) =
            (if net_profit \<le> 0 then ([Net_profit_required], False) else ([], True))
      in case ratio of
           None \<Rightarrow> (reasons1 @ [Valid_assets_liabilities_needed], False)
         | Some cr \<Rightarrow>
             if cr \<le> 1 then (reasons1 @ [Current_ratio_required cr], False)
             else (reasons1, eligible1))"

subsection \<open>Calculation\<close>

text \<open>
  One entry of \<^verbatim>\<open>calculation_details["Adjustments"]\<close>: the source stores the text
  \<^verbatim>\<open>reason: change% (before -> after)\<close>; the model keeps its four parts. (For the
  current ratio the text also shows the ratio after the reason; that is left out.)
\<close>

record adjustment =
  reason :: string
  change_percent :: real
  limit_before :: real
  limit_after :: real

text \<open>
  \<^verbatim>\<open>apply_adjustment(current_limit, factor, reason)\<close> returns the new limit and appends
  the detail; the detail list is passed and returned with the limit.
\<close>

definition apply_adjustment :: "real \<times> adjustment list \<Rightarrow> real \<Rightarrow> string \<Rightarrow> real \<times> adjustment list" where
  "apply_adjustment st factor rsn =
     (case st of (current_limit, details) \<Rightarrow>
        let new_limit = current_limit * factor
        in (new_limit,
            details @ [\<lparr>reason = rsn, change_percent = (factor - 1) * 100,
                        limit_before = current_limit, limit_after = new_limit\<rparr>]))"

text \<open>
  The nine adjustments of lines 222 to 231, in their order. Each line reads
  \<^verbatim>\<open>if guard: credit_limit = apply_adjustment(credit_limit, factor, reason)\<close>; the table
  gives the guard, the factor and the reason of each. No guard looks at the running limit,
  so running the nine lines is applying, from left to right, the steps whose guard holds
  (\<open>triggered\<close>) to the running limit and the list of details (\<open>apply_steps\<close>).
\<close>

definition adjustment_steps :: "cl_form \<Rightarrow> cl_inputs \<Rightarrow> real \<Rightarrow> (bool \<times> real \<times> string) list" where
  "adjustment_steps f i cr =
     [(exposure_outstanding i > revenue i * 0.3, 0.65, ''Exposure > 30% Revenue''),
      (is_saudi f = No, 0.90, ''Non-Saudi company''),
      (years_of_operation i < 3, 0.90, ''Company < 3 years old''),
      (has_concentration f = Yes, 0.90, ''Customer concentration > 40%''),
      (has_previous_payments f = Yes \<and> has_payment_delays f = Yes, 0.90,
         ''Payment delays > 30 days''),
      (number_of_projects i < 3, 0.95, ''Number of Projects < 3''),
      (cr > 2, 1.05, ''Current Ratio > 2''),
      (years_of_operation i > 10, 1.05, ''Years in Business > 10''),
      (has_previous_payments f = Yes \<and> has_payment_delays f = No, 1.10,
         ''Previous Timely Payments'')]"

definition apply_steps :: "real \<times> adjustment list \<Rightarrow> (real \<times> string) list \<Rightarrow> real \<times> adjustment list" where
  "apply_steps st steps = foldl (\<lambda>st (factor, rsn). apply_adjustment st factor rsn) st steps"

definition triggered :: "(bool \<times> real \<times> string) list \<Rightarrow> (real \<times> string) list" where
  "triggered steps = map snd (filter fst steps)"

datatype threshold = Floor_applied | Ceiling_applied

record cl_result =
  base_limit_unadjusted :: real
  base_limit_cap_applied :: bool
  base_limit_after_cap :: real
  adjustments :: "adjustment list"
  adjusted_limit :: real
  min_max_applied :: "threshold option"
  final_limit :: real

definition max_initial_base_limit :: real where
  "max_initial_base_limit = 2000000"

definition min_final_limit :: real where
  "min_final_limit = 100000"

definition max_final_limit :: real where
  "max_final_limit = 2000000"

text \<open>
  \<open>base_limit_cap_applied\<close> says that \<^verbatim>\<open>calculation_details["Base Limit Cap Applied"]\<close>
  is a non-empty text, which is what the final ceiling tests.
\<close>

definition calculation :: "cl_form \<Rightarrow> cl_inputs \<Rightarrow> real \<Rightarrow> cl_result" where
  "calculation f i cr =
     (let unadjusted = (if industry_type f = Some Contractor
                        then unbilled_revenue i * 0.15 else revenue i * 0.05);
          credit_limit = min unadjusted max_initial_base_limit;
          cap_applied = (unadjusted > max_initial_base_limit);
          (adjusted, details) =
             apply_steps (credit_limit, []) (triggered (adjustment_steps f i cr));
          (final, note) =
             (if adjusted < min_final_limit then (min_final_limit, Some Floor_applied)
              else if adjusted > max_final_limit then
                (if \<not> (cap_applied \<and> max_final_limit = max_initial_base_limit)
                 then (max_final_limit, Some Ceiling_applied) else (adjusted, None))
              else (adjusted, None))
      in \<lparr>base_limit_unadjusted = unadjusted, base_limit_cap_applied = cap_applied,
           base_limit_after_cap = credit_limit, adjustments = details,
           adjusted_limit = adjusted, min_max_applied = note, final_limit = final\<rparr>)"

text \<open>
  What a submission shows: the input errors, the reasons of ineligibility, the result, or
  the message of one of the two handlers: \<^verbatim>\<open>Calc error: Division by zero\<close> for
  \<^verbatim>\<open>ZeroDivisionError\<close>, \<^verbatim>\<open>Unexpected error\<close> for any other exception (comparing
  \<^verbatim>\<open>None > 2\<close> raises \<^verbatim>\<open>TypeError\<close>). The ratio is computed on line 187, before the
  errors are looked at.
\<close>

datatype cl_outcome =
    Input_errors "string list"
  | Not_eligible "eligibility_reason list"
  | Calculated cl_result
  | Calc_error
  | Unexpected_error

definition evaluate :: "cl_form \<Rightarrow> cl_inputs \<Rightarrow> cl_outcome" where
  "evaluate f i =
     (let errors = validation f i in
      case actual_current_ratio i of
        Inl ZeroDivisionError \<Rightarrow> Calc_error
      | Inl TypeError \<Rightarrow> Unexpected_error
      | Inr ratio \<Rightarrow>
          if errors \<noteq> [] then Input_errors errors
          else
            let (reasons, is_eligible) = eligibility (actual_net_profit i) ratio in
            if \<not> is_eligible then Not_eligible reasons
            else (case ratio of
                    None \<Rightarrow> Unexpected_error
                  | Some cr \<Rightarrow> Calculated (calculation f i cr)))"

definition credit_limit_calculator :: "cl_form \<Rightarrow> cl_outcome option" where
  "credit_limit_calculator f = map_option (evaluate f) (data_cleaning f)"

subsection \<open>The rules of the specification\<close>

text \<open>
  The field rules as the specification lists them, to be compared with \<open>validation\<close>:
  requested limit above 0; revenue above 0; exposure not negative; industry type present;
  for a contractor, unbilled revenue present and above 0; years of operation above 0; at
  least one project; net profit percentage, current assets and current liabilities present
  and above 0. A text field is present when it is not blank.
\<close>

definition valid_application :: "cl_form \<Rightarrow> cl_inputs \<Rightarrow> bool" where
  "valid_application f i \<longleftrightarrow>
     0 < requested_limit i \<and> 0 < revenue i \<and> 0 \<le> exposure_outstanding i \<and>
     industry_type f \<noteq> None \<and>
     (industry_type f = Some Contractor \<longrightarrow>
        strip (unbilled_revenue_str f) \<noteq> [] \<and> 0 < unbilled_revenue i) \<and>
     0 < years_of_operation i \<and> 1 \<le> number_of_projects i \<and>
     strip (net_profit_percentage_str f) \<noteq> [] \<and> 0 < net_profit_percentage i \<and>
     strip (current_assets_str f) \<noteq> [] \<and> 0 < current_assets i \<and>
     strip (current_liabilities_str f) \<noteq> [] \<and> 0 < current_liabilities i"

section \<open>Profitability Calculator\<close>

text \<open>A staged deal: the keys of the dictionary built on line 325.\<close>

record deal =
  temp_id :: string
  client_name :: string
  deal_size :: real
  monthly_rate :: real
  admin_fee :: real
  months :: int
  monthly_profit :: real
  total_profit :: real
  admin_fee_amount :: real
  gross_profit :: real

text \<open>
  The form \<^verbatim>\<open>add_deal_form\<close> (lines 321 to 326) on the staged list
  \<^verbatim>\<open>st.session_state.unsaved_deals\<close>. \<open>now\<close> is the clock's \<^verbatim>\<open>isoformat()\<close>.
  The form warns and changes nothing without a client name or with a size \<open>\<le> 0\<close>.
  The local names \<open>mp\<close>, \<open>tp\<close>, \<open>afa\<close>, \<open>gp\<close> and \<open>tid\<close> stand for
  \<^verbatim>\<open>monthly_profit\<close>, \<^verbatim>\<open>total_profit\<close>, \<^verbatim>\<open>admin_fee_amount\<close>,
  \<^verbatim>\<open>gross_profit\<close> and \<^verbatim>\<open>temp_id\<close>, which name the fields of the deal.
\<close>

definition add_deal :: "string \<Rightarrow> string \<Rightarrow> real \<Rightarrow> real \<Rightarrow> real \<Rightarrow> int \<Rightarrow> deal list \<Rightarrow> deal list" where
  "add_deal now name dsize rate fee_perc m unsaved_deals =
     (if name = [] \<or> dsize \<le> 0 then unsaved_deals
      else
        let mp = dsize * (rate / 100);
            tp = mp * of_int m;
            afa = dsize * (fee_perc / 100);
            gp = tp + afa;
            tid = now @ ''_'' @ map (\<lambda>c. if c = CHR '' '' then CHR ''_'' else c) name
        in unsaved_deals @
           [\<lparr>temp_id = tid, client_name = name, deal_size = dsize, monthly_rate = rate,
             admin_fee = fee_perc, months = m, monthly_profit = mp, total_profit = tp,
             admin_fee_amount = afa, gross_profit = gp\<rparr>])"

subsection \<open>Saving the staged deals\<close>

text \<open>
  The record store is outside the program. One call of it, \<^verbatim>\<open>set_session\<close> followed by
  \<^verbatim>\<open>insert(prepared_deals).execute()\<close>, either raises or answers with an error (absent or
  empty: \<open>None\<close>) and the list \<^verbatim>\<open>response.data\<close> of the rows it reports as inserted.
  A prepared row copies every key of the staged deal but \<^verbatim>\<open>temp_id\<close> and adds the user
  id; it is modelled by the deal paired with the user id.
\<close>

datatype 'row store_reply = Raised | Response "string option" "'row list"

type_synonym db_deal = "deal \<times> string"

text \<open>
  The test of line 88. A staged deal has a float size and an int number of months, as the
  number inputs give them, and the user id is not \<^verbatim>\<open>None\<close> once line 83 is passed.
\<close>

definition valid_deal :: "deal \<Rightarrow> bool" where
  "valid_deal d = (client_name d \<noteq> [] \<and> deal_size d > 0 \<and> months d > 0)"

definition prepared_deals :: "string \<Rightarrow> deal list \<Rightarrow> db_deal list" where
  "prepared_deals user_id deals_list = map (\<lambda>d. (d, user_id)) (filter valid_deal deals_list)"

text \<open>
  \<^verbatim>\<open>not x\<close> for a text that may be \<^verbatim>\<open>None\<close>. Every path of
  \<^verbatim>\<open>save_deal_bundle_to_db\<close> that does not return \<^verbatim>\<open>True\<close> returns \<^verbatim>\<open>False\<close>,
  after a message; a user id that is \<^verbatim>\<open>None\<close> or empty is refused on line 83.
\<close>

definition falsy :: "string option \<Rightarrow> bool" where
  "falsy x = (x = None \<or> x = Some [])"

definition save_deal_bundle_to_db ::
    "string option \<Rightarrow> string option \<Rightarrow> deal list \<Rightarrow> (db_deal list \<Rightarrow> 'row store_reply) \<Rightarrow> bool" where
  "save_deal_bundle_to_db user_id session_token deals_list store =
     (if deals_list = [] then False
      else case user_id of
        None \<Rightarrow> False
      | Some uid \<Rightarrow>
          if uid = [] then False
          else if falsy session_token then False
          else
            let prepared = prepared_deals uid deals_list in
            if prepared = [] then False
            else (case store prepared of
                    Raised \<Rightarrow> False
                  | Response err rows \<Rightarrow>
                      if err \<noteq> None then False
                      else if rows = [] then False
                      else if length rows \<noteq> length prepared then False
                      else True))"

text \<open>
  The button \<^verbatim>\<open>Save All Staged Deals to Database\<close> (lines 358 to 367): the staged list
  after the click.
\<close>

definition save_all_staged ::
    "string option \<Rightarrow> string option \<Rightarrow> (db_deal list \<Rightarrow> 'row store_reply) \<Rightarrow> deal list \<Rightarrow> deal list" where
  "save_all_staged user_id session_token store unsaved_deals =
     (let num_to_save = length unsaved_deals in
      if num_to_save > 0 then
        (if falsy session_token then unsaved_deals
         else if save_deal_bundle_to_db user_id session_token unsaved_deals store then []
         else unsaved_deals)
      else unsaved_deals)"

section \<open>Murabahah Size Calculator\<close>

record month_row =
  month :: int
  installment :: real
  principal_paid :: real
  profit :: real
  admin_fee_paid :: real
  remaining_principal :: real

text \<open>
  The body of the loop of lines 452 to 459 for month \<open>m\<close>, with \<open>remaining\<close> the running
  \<^verbatim>\<open>remaining_principal\<close>: the row it appends. \<open>principal_paid0\<close> is
  \<^verbatim>\<open>principal_paid\<close> as line 456 computes it, \<open>principal_paid1\<close> its value after the
  test of line 457 for the last month.
\<close>

definition month_entry :: "real \<Rightarrow> real \<Rightarrow> real \<Rightarrow> real \<Rightarrow> int \<Rightarrow> real \<Rightarrow> int \<Rightarrow> month_row" where
  "month_entry first subsequent fee rate period remaining m =
     (let profit_for_month = remaining * rate;
          current_month_total_payment = (if m = 1 then first else subsequent);
          admin_fee_paid_this_month = (if m = 1 then fee else 0);
          principal_paid0 =
            max 0 (current_month_total_payment - profit_for_month - admin_fee_paid_this_month);
          principal_paid1 = (if m = period then remaining else principal_paid0)
      in \<lparr>month = m, installment = current_month_total_payment,
           principal_paid = principal_paid1, profit = profit_for_month,
           admin_fee_paid = admin_fee_paid_this_month,
           remaining_principal = max 0 (remaining - principal_paid1)\<rparr>)"

text \<open>
  The loop over the months still to come: each month gives one row and takes its
  principal off the running remaining principal.
\<close>

fun schedule_rows :: "real \<Rightarrow> real \<Rightarrow> real \<Rightarrow> real \<Rightarrow> int \<Rightarrow> real \<Rightarrow> int list \<Rightarrow> month_row list" where
  "schedule_rows first subsequent fee rate period remaining [] = []"
| "schedule_rows first subsequent fee rate period remaining (m # ms) =
     (let row = month_entry first subsequent fee rate period remaining m
      in row # schedule_rows first subsequent fee rate period (remaining - principal_paid row) ms)"

text \<open>
  The figures computed on lines 443 to 450, as functions of the four inputs (the period
  already an int).
\<close>

definition mur_admin_fee_amount :: "real \<Rightarrow> real \<Rightarrow> real" where
  "mur_admin_fee_amount dsize fee_perc = dsize * (fee_perc / 100)"

definition monthly_profit_rate_dec :: "real \<Rightarrow> real" where
  "monthly_profit_rate_dec profit_rate = profit_rate / 100"

definition total_profit_amount :: "real \<Rightarrow> real \<Rightarrow> int \<Rightarrow> real" where
  "total_profit_amount dsize profit_rate period =
     dsize * monthly_profit_rate_dec profit_rate * of_int period"

definition base_repayment_per_month :: "real \<Rightarrow> real \<Rightarrow> int \<Rightarrow> real" where
  "base_repayment_per_month dsize profit_rate period =
     (if period > 0 then (dsize + total_profit_amount dsize profit_rate period) / of_int period
      else 0)"

text \<open>
  What the page shows. \<open>mur_total_profit\<close> is the variable \<^verbatim>\<open>total_profit\<close> of the
  source, set to 0 on line 438 and not assigned again; the figures keep the values of lines
  438 to 440 unless the deal size and the period are above 0. The local names \<open>afa\<close>,
  \<open>tpa\<close> and \<open>base\<close> stand for \<^verbatim>\<open>admin_fee_amount\<close>, \<^verbatim>\<open>total_profit_amount\<close>
  and \<^verbatim>\<open>base_repayment_per_month\<close>.
\<close>

record murabahah_result =
  first_month_payment :: real
  subsequent_monthly_payment :: real
  mur_total_profit :: real
  total_admin_fee :: real
  total_earnings :: real
  payment_schedule :: "month_row list"

definition murabahah_calculator :: "real \<Rightarrow> real \<Rightarrow> real \<Rightarrow> real \<Rightarrow> murabahah_result" where
  "murabahah_calculator dsize profit_rate financing_period_float fee_perc =
     (let financing_period = py_int financing_period_float in
      if dsize > 0 \<and> financing_period > 0 then
        let afa = mur_admin_fee_amount dsize fee_perc;
            tpa = total_profit_amount dsize profit_rate financing_period;
            base = base_repayment_per_month dsize profit_rate financing_period;
            first = base + afa
        in \<lparr>first_month_payment = first, subsequent_monthly_payment = base,
             mur_total_profit = 0, total_admin_fee = afa, total_earnings = tpa + afa,
             payment_schedule =
               schedule_rows first base afa (monthly_profit_rate_dec profit_rate)
                 financing_period dsize [1..financing_period]\<rparr>
      else \<lparr>first_month_payment = 0, subsequent_monthly_payment = 0, mur_total_profit = 0,
             total_admin_fee = 0, total_earnings = 0, payment_schedule = []\<rparr>)"

section \<open>Concrete inputs\<close>

text \<open>
  The application of the specification's example: a trading company with a revenue of
  10,000,000, no negative adjustment, and the three positive ones. Its variants: a revenue
  of 100,000,000 (the base limit is capped), a revenue of 1,000,000 (the floor applies),
  current assets below the liabilities (not eligible), and a submission with a revenue
  that is no number and blank current assets.
\<close>

definition example_form :: cl_form where
  "example_form =
     \<lparr>requested_limit_str = ''500,000'', revenue_str = ''10,000,000'',
      net_profit_percentage_str = ''5'', current_assets_str = ''3,000,000'',
      current_liabilities_str = ''1,000,000'', exposure_outstanding_str = ''0'',
      industry_type = Some Trading, unbilled_revenue_str = [], is_saudi = Yes,
      years_of_operation_str = 12, has_concentration = No, number_of_projects_str = 3,
      has_previous_payments = Yes, has_payment_delays = No\<rparr>"

definition example_inputs :: cl_inputs where
  "example_inputs =
     \<lparr>requested_limit = 500000, revenue = 10000000, net_profit_percentage = 5 / 100,
      current_assets = 3000000, current_liabilities = 1000000, exposure_outstanding = 0,
      unbilled_revenue = 0, years_of_operation = 12, number_of_projects = 3\<rparr>"

definition capped_form :: cl_form where
  "capped_form = example_form\<lparr>revenue_str := ''100,000,000''\<rparr>"

definition capped_inputs :: cl_inputs where
  "capped_inputs = example_inputs\<lparr>revenue := 100000000\<rparr>"

definition small_form :: cl_form where
  "small_form = example_form\<lparr>revenue_str := ''1,000,000''\<rparr>"

definition small_inputs :: cl_inputs where
  "small_inputs = example_inputs\<lparr>revenue := 1000000\<rparr>"

definition ineligible_form :: cl_form where
  "ineligible_form = example_form\<lparr>current_assets_str := ''500,000''\<rparr>"

definition ineligible_inputs :: cl_inputs where
  "ineligible_inputs = example_inputs\<lparr>current_assets := 500000\<rparr>"

definition invalid_form :: cl_form where
  "invalid_form = example_form\<lparr>revenue_str := ''n/a'', current_assets_str := '' ''\<rparr>"

definition invalid_inputs :: cl_inputs where
  "invalid_inputs = example_inputs\<lparr>revenue := 0, current_assets := 0\<rparr>"

text \<open>The three positive adjustments of the example, last first.\<close>

definition reversed_steps :: "(real \<times> string) list" where
  "reversed_steps =
     [(1.10, ''Previous Timely Payments''), (1.05, ''Years in Business > 10''),
      (1.05, ''Current Ratio > 2'')]"

text \<open>Two staged deals, a store that inserts every row and one that drops the first.\<close>

definition example_deals :: "deal list" where
  "example_deals =
     add_deal ''2024-01-02T10:00:00'' ''Acme'' 200000 3 1.5 4
       (add_deal ''2024-01-01T10:00:00'' ''Beta Co'' 50000 2 1 6 [])"

definition store_all :: "db_deal list \<Rightarrow> db_deal store_reply" where
  "store_all rows = Response None rows"

definition store_partial :: "db_deal list \<Rightarrow> db_deal store_reply" where
  "store_partial rows = Response None (tl rows)"

section \<open>Properties of \<^verbatim>\<open>clean_number\<close>\<close>

lemmas parse_defs = clean_number_def cleaned_def strip_def remove_char_def is_space_def
  py_float_def unsigned_def lower_def floatnumber_def split_at_def number_def digits_val_def
  is_digit_def digit_val_def num_digits_def

lemma clean_number_PyNum: "clean_number (PyNum v) False = Some v"
  by (simp add: clean_number_def)

text \<open>
  What holds of the parser: \<^verbatim>\<open>"5"\<close> as a percentage is 0.05, the empty text and
  \<^verbatim>\<open>None\<close> are 0 with or without the flag, \<^verbatim>\<open>"1,500,000"\<close> without the flag is
  1500000 (and 15000 with it), and text that \<^verbatim>\<open>float()\<close> rejects is 0.
\<close>

lemma clean_number_examples:
  "clean_number (PyStr ''5'') True = Some 0.05"
  "clean_number (PyStr []) p = Some 0"
  "clean_number PyNone p = Some 0"
  "clean_number (PyStr ''1,500,000'') False = Some 1500000"
  "clean_number (PyStr ''1,500,000'') True = Some 15000"
  by (simp_all add: parse_defs)

lemma clean_number_ValueError:
  "py_float (cleaned s) = ValueError \<Longrightarrow> clean_number (PyStr s) p = Some 0"
  by (simp add: clean_number_def)

lemma clean_number_not_numeric: "clean_number (PyStr ''n/a'') p = Some 0"
  by (simp add: parse_defs)

text \<open>
  Claim C4. The parser with the percentage flag is said to leave \<^verbatim>\<open>"0.5"\<close>
  unchanged because it is already a fraction below 1. The test \<^verbatim>\<open>abs(val) >= 1\<close> is
  made only for an argument that is already a number; text is always divided by 100, so
  \<^verbatim>\<open>"0.5"\<close> becomes 0.005, while the number 0.5 stays 0.5.
\<close>

theorem clean_number_fraction_text:
  "clean_number (PyStr ''0.5'') True = Some 0.005 \<and>
   clean_number (PyStr ''0.5'') True \<noteq> Some 0.5 \<and>
   clean_number (PyNum 0.5) True = Some 0.5"
  by (simp add: parse_defs)

section \<open>Properties of the Credit Limit Calculator\<close>

lemma apply_steps_Cons:
  "apply_steps (l, d) ((fa, rs) # steps) =
     apply_steps (l * fa, d @ [\<lparr>reason = rs, change_percent = (fa - 1) * 100,
                                limit_before = l, limit_after = l * fa\<rparr>]) steps"
  by (simp add: apply_steps_def apply_adjustment_def Let_def)

lemma apply_steps_Nil: "apply_steps st [] = st"
  by (simp add: apply_steps_def)

lemma apply_steps_limit:
  "fst (apply_steps (l, d) steps) = l * prod_list (map fst steps)"
proof (induction steps arbitrary: l d)
  case Nil
  then show ?case by (simp add: apply_steps_Nil)
next
  case (Cons s steps)
  obtain fa rs where s: "s = (fa, rs)" by (cases s)
  show ?case by (simp add: s apply_steps_Cons Cons.IH mult.assoc)
qed

lemma prod_list_mset:
  fixes xs ys :: "real list"
  assumes "mset xs = mset ys"
  shows "prod_list xs = prod_list ys"
proof -
  have "prod_mset (mset xs) = prod_mset (mset ys)" using assms by simp
  then show ?thesis by (simp only: prod_mset_prod_list)
qed

lemma apply_steps_permuted:
  assumes "mset steps = mset steps'"
  shows "fst (apply_steps (l, d) steps) = fst (apply_steps (l, d') steps')"
proof -
  have "mset (map fst steps) = mset (map fst steps')"
    using assms by (metis mset_map)
  then have "prod_list (map fst steps) = prod_list (map fst steps')"
    by (rule prod_list_mset)
  then show ?thesis by (simp add: apply_steps_limit)
qed

lemmas limit_defs = max_initial_base_limit_def min_final_limit_def max_final_limit_def

lemma calculation_base:
  "base_limit_unadjusted (calculation f i cr) =
     (if industry_type f = Some Contractor then unbilled_revenue i * 0.15 else revenue i * 0.05)"
  "base_limit_cap_applied (calculation f i cr) = (base_limit_unadjusted (calculation f i cr) > 2000000)"
  "base_limit_after_cap (calculation f i cr) = min (base_limit_unadjusted (calculation f i cr)) 2000000"
  by (simp_all add: calculation_def Let_def limit_defs split: prod.splits)

lemma calculation_adjusted:
  "adjusted_limit (calculation f i cr) =
     fst (apply_steps (base_limit_after_cap (calculation f i cr), [])
            (triggered (adjustment_steps f i cr)))"
  "adjustments (calculation f i cr) =
     snd (apply_steps (base_limit_after_cap (calculation f i cr), [])
            (triggered (adjustment_steps f i cr)))"
  by (simp_all add: calculation_def Let_def limit_defs split: prod.splits)

lemma calculation_final:
  "final_limit (calculation f i cr) =
     (if adjusted_limit (calculation f i cr) < 100000 then 100000
      else if adjusted_limit (calculation f i cr) > 2000000
              \<and> \<not> base_limit_cap_applied (calculation f i cr) then 2000000
      else adjusted_limit (calculation f i cr))"
  "min_max_applied (calculation f i cr) =
     (if adjusted_limit (calculation f i cr) < 100000 then Some Floor_applied
      else if adjusted_limit (calculation f i cr) > 2000000
              \<and> \<not> base_limit_cap_applied (calculation f i cr) then Some Ceiling_applied
      else None)"
  by (simp_all add: calculation_def Let_def limit_defs split: prod.splits)

subsection \<open>Validation and eligibility\<close>

lemma mem_if1: "x \<in> set (if c then [m] else []) \<longleftrightarrow> c \<and> x = m"
  by auto

lemma mem_if2:
  "x \<in> set (if c then [m] else if d then [n] else []) \<longleftrightarrow> c \<and> x = m \<or> \<not> c \<and> d \<and> x = n"
  by auto

lemma mem_if3:
  "x \<in> set (if a then (if c then [m] else if d then [n] else []) else []) \<longleftrightarrow>
     a \<and> (c \<and> x = m \<or> \<not> c \<and> d \<and> x = n)"
  by auto

lemma nil_if1: "(if c then [m] else []) = [] \<longleftrightarrow> \<not> c"
  by simp

lemma nil_if2: "(if c then [m] else if d then [n] else []) = [] \<longleftrightarrow> \<not> c \<and> \<not> d"
  by simp

lemma nil_if3:
  "(if a then (if c then [m] else if d then [n] else []) else []) = [] \<longleftrightarrow>
     (a \<longrightarrow> \<not> c \<and> \<not> d)"
  by simp

lemma validation_mem:
  "e \<in> set (validation f i) \<longleftrightarrow>
     requested_limit i \<le> 0 \<and> e = ''Requested Limit > 0.'' \<or>
     revenue i \<le> 0 \<and> e = ''Revenue > 0.'' \<or>
     exposure_outstanding i < 0 \<and> e = ''Exposure >= 0.'' \<or>
     industry_type f = None \<and> e = ''Industry Type required.'' \<or>
     industry_type f = Some Contractor \<and>
       (strip (unbilled_revenue_str f) = [] \<and> e = ''Unbilled Revenue required.'' \<or>
        strip (unbilled_revenue_str f) \<noteq> [] \<and> unbilled_revenue i \<le> 0 \<and>
          e = ''Unbilled Revenue > 0.'') \<or>
     years_of_operation i \<le> 0 \<and> e = ''Years Op > 0.'' \<or>
     number_of_projects i < 1 \<and> e = ''Projects >= 1.'' \<or>
     strip (net_profit_percentage_str f) = [] \<and> e = ''Net Profit % required.'' \<or>
     strip (net_profit_percentage_str f) \<noteq> [] \<and> net_profit_percentage i \<le> 0 \<and>
       e = ''Net Profit % must be > 0.'' \<or>
     strip (current_assets_str f) = [] \<and> e = ''Current Assets required.'' \<or>
     strip (current_liabilities_str f) = [] \<and> e = ''Current Liabilities required.'' \<or>
     current_assets i \<le> 0 \<and> e = ''Current Assets > 0.'' \<or>
     current_liabilities i \<le> 0 \<and> e = ''Current Liabilities > 0.''"
  unfolding validation_def set_append Un_iff mem_if1 mem_if2 mem_if3
  by (simp only: disj_assoc)

lemma validation_Nil: "validation f i = [] \<longleftrightarrow> valid_application f i"
  unfolding validation_def append_is_Nil_conv nil_if1 nil_if2 nil_if3 valid_application_def
  by (auto simp add: not_le not_less)

lemma ratio_cases:
  "actual_current_ratio i =
     (if current_liabilities i > 0 \<and> current_assets i > 0
      then Inr (Some (current_assets i / current_liabilities i)) else Inr None)"
  by (simp add: actual_current_ratio_def py_div_def)

lemma eligibility_Some:
  "eligibility np (Some cr) =
     ((if np \<le> 0 then [Net_profit_required] else []) @
      (if cr \<le> 1 then [Current_ratio_required cr] else []), 0 < np \<and> 1 < cr)"
  by (auto simp add: eligibility_def)

lemma evaluate_invalid:
  "validation f i \<noteq> [] \<Longrightarrow> evaluate f i = Input_errors (validation f i)"
  by (simp add: evaluate_def ratio_cases Let_def)

lemma valid_net_profit:
  assumes "valid_application f i"
  shows "0 < actual_net_profit i"
  using assms by (simp add: valid_application_def actual_net_profit_def)

lemma evaluate_valid:
  assumes "validation f i = []"
  shows "evaluate f i =
     (if current_assets i / current_liabilities i \<le> 1
      then Not_eligible [Current_ratio_required (current_assets i / current_liabilities i)]
      else Calculated (calculation f i (current_assets i / current_liabilities i)))"
proof -
  from assms have v: "valid_application f i" by (simp add: validation_Nil)
  then have pos: "0 < current_assets i" "0 < current_liabilities i"
    by (simp_all add: valid_application_def)
  from v have np: "0 < actual_net_profit i" by (rule valid_net_profit)
  show ?thesis
    using assms pos np by (simp add: evaluate_def ratio_cases eligibility_Some Let_def)
qed

lemma evaluate_Calculated:
  assumes "evaluate f i = Calculated r"
  shows "r = calculation f i (current_assets i / current_liabilities i)"
proof (cases "validation f i = []")
  case True
  with assms show ?thesis by (simp add: evaluate_valid split: if_splits)
next
  case False
  with assms show ?thesis by (simp add: evaluate_invalid)
qed

lemma calculator_Calculated:
  assumes "credit_limit_calculator f = Some (Calculated r)"
  obtains i where "data_cleaning f = Some i" and "evaluate f i = Calculated r"
  using assms by (auto simp add: credit_limit_calculator_def)

subsection \<open>The concrete applications\<close>

lemma clean_examples:
  "clean_number (PyStr ''500,000'') False = Some 500000"
  "clean_number (PyStr ''10,000,000'') False = Some 10000000"
  "clean_number (PyStr ''100,000,000'') False = Some 100000000"
  "clean_number (PyStr ''1,000,000'') False = Some 1000000"
  "clean_number (PyStr ''5'') True = Some (5 / 100)"
  "clean_number (PyStr ''3,000,000'') False = Some 3000000"
  "clean_number (PyStr ''0'') False = Some 0"
  "clean_number (PyStr ''n/a'') False = Some 0"
  "clean_number (PyStr '' '') False = Some 0"
  by (simp_all add: parse_defs)

lemma example_cleaning:
  "data_cleaning example_form = Some example_inputs"
  "data_cleaning capped_form = Some capped_inputs"
  "data_cleaning small_form = Some small_inputs"
  "data_cleaning ineligible_form = Some ineligible_inputs"
  "data_cleaning invalid_form = Some invalid_inputs"
  by (simp_all add: data_cleaning_def example_form_def example_inputs_def capped_form_def
      capped_inputs_def small_form_def small_inputs_def ineligible_form_def
      ineligible_inputs_def invalid_form_def invalid_inputs_def clean_examples
      clean_number_PyNum py_int_def)

lemma example_validation:
  "validation example_form example_inputs = []"
  "validation capped_form capped_inputs = []"
  "validation small_form small_inputs = []"
  "validation ineligible_form ineligible_inputs = []"
  "validation invalid_form invalid_inputs =
     [''Revenue > 0.'', ''Current Assets required.'', ''Current Assets > 0.'']"
  by (simp_all add: validation_def strip_def is_space_def example_form_def example_inputs_def
      capped_form_def capped_inputs_def small_form_def small_inputs_def ineligible_form_def
      ineligible_inputs_def invalid_form_def invalid_inputs_def)

lemma example_ratio:
  "current_assets example_inputs / current_liabilities example_inputs = 3"
  "current_assets capped_inputs / current_liabilities capped_inputs = 3"
  "current_assets small_inputs / current_liabilities small_inputs = 3"
  "current_assets ineligible_inputs / current_liabilities ineligible_inputs = 1 / 2"
  by (simp_all add: example_inputs_def capped_inputs_def small_inputs_def
      ineligible_inputs_def)

lemma example_evaluate:
  "evaluate example_form example_inputs = Calculated (calculation example_form example_inputs 3)"
  "evaluate capped_form capped_inputs = Calculated (calculation capped_form capped_inputs 3)"
  "evaluate small_form small_inputs = Calculated (calculation small_form small_inputs 3)"
  "evaluate ineligible_form ineligible_inputs = Not_eligible [Current_ratio_required (1 / 2)]"
  "evaluate invalid_form invalid_inputs =
     Input_errors [''Revenue > 0.'', ''Current Assets required.'', ''Current Assets > 0.'']"
  by (simp_all add: evaluate_valid evaluate_invalid example_validation example_ratio)

lemma example_calculator:
  "credit_limit_calculator example_form =
     Some (Calculated (calculation example_form example_inputs 3))"
  "credit_limit_calculator capped_form =
     Some (Calculated (calculation capped_form capped_inputs 3))"
  "credit_limit_calculator small_form =
     Some (Calculated (calculation small_form small_inputs 3))"
  "credit_limit_calculator ineligible_form =
     Some (Not_eligible [Current_ratio_required (1 / 2)])"
  "credit_limit_calculator invalid_form =
     Some (Input_errors [''Revenue > 0.'', ''Current Assets required.'',
                         ''Current Assets > 0.''])"
  by (simp_all add: credit_limit_calculator_def example_cleaning example_evaluate)

lemma example_triggered:
  "triggered (adjustment_steps example_form example_inputs 3) =
     [(1.05, ''Current Ratio > 2''), (1.05, ''Years in Business > 10''),
      (1.10, ''Previous Timely Payments'')]"
  "triggered (adjustment_steps capped_form capped_inputs 3) =
     [(1.05, ''Current Ratio > 2''), (1.05, ''Years in Business > 10''),
      (1.10, ''Previous Timely Payments'')]"
  "triggered (adjustment_steps small_form small_inputs 3) =
     [(1.05, ''Current Ratio > 2''), (1.05, ''Years in Business > 10''),
      (1.10, ''Previous Timely Payments'')]"
  by (simp_all add: triggered_def adjustment_steps_def example_form_def example_inputs_def
      capped_form_def capped_inputs_def small_form_def small_inputs_def)

lemma example_base:
  "base_limit_after_cap (calculation example_form example_inputs 3) = 500000"
  "base_limit_after_cap (calculation capped_form capped_inputs 3) = 2000000"
  "base_limit_after_cap (calculation small_form small_inputs 3) = 50000"
  "base_limit_unadjusted (calculation example_form example_inputs 3) = 500000"
  "base_limit_cap_applied (calculation capped_form capped_inputs 3)"
  "\<not> base_limit_cap_applied (calculation small_form small_inputs 3)"
  by (simp_all add: calculation_base example_form_def example_inputs_def capped_form_def
      capped_inputs_def small_form_def small_inputs_def)

lemma example_adjusted:
  "adjusted_limit (calculation example_form example_inputs 3) = 606375"
  "adjusted_limit (calculation capped_form capped_inputs 3) = 2425500"
  "adjusted_limit (calculation small_form small_inputs 3) = 60637.5"
  by (simp_all add: calculation_adjusted example_base example_triggered apply_steps_limit)






text \<open>
  Claim C6. A trading company with a revenue of 10,000,000 that passes validation and
  eligibility, with no negative adjustment triggered, a current ratio above 2, more than 10
  years of operation and previous payments without delays: the base limit is 500,000 and is
  not capped, the adjustments are +5%, +5% and +10% in this order, and the final limit is
  606,375 with neither floor nor ceiling.
\<close>

theorem trading_example:
  assumes "credit_limit_calculator f = Some (Calculated r)"
    and "data_cleaning f = Some i"
    and "revenue i = 10000000" and "industry_type f = Some Trading"
    and "\<not> exposure_outstanding i > revenue i * 0.3" and "is_saudi f = Yes"
    and "has_concentration f = No" and "\<not> number_of_projects i < 3"
    and "current_assets i / current_liabilities i > 2" and "years_of_operation i > 10"
    and "has_previous_payments f = Yes" and "has_payment_delays f = No"
  shows "base_limit_unadjusted r = 500000 \<and> \<not> base_limit_cap_applied r \<and>
         base_limit_after_cap r = 500000 \<and>
         adjustments r =
           [\<lparr>reason = ''Current Ratio > 2'', change_percent = 5,
              limit_before = 500000, limit_after = 525000\<rparr>,
            \<lparr>reason = ''Years in Business > 10'', change_percent = 5,
              limit_before = 525000, limit_after = 551250\<rparr>,
            \<lparr>reason = ''Previous Timely Payments'', change_percent = 10,
              limit_before = 551250, limit_after = 606375\<rparr>] \<and>
         adjusted_limit r = 606375 \<and> final_limit r = 606375 \<and> min_max_applied r = None"
proof -
  from assms(1,2) have "evaluate f i = Calculated r"
    by (simp add: credit_limit_calculator_def)
  then have r: "r = calculation f i (current_assets i / current_liabilities i)"
    by (rule evaluate_Calculated)
  have steps: "triggered (adjustment_steps f i (current_assets i / current_liabilities i)) =
      [(1.05, ''Current Ratio > 2''), (1.05, ''Years in Business > 10''),
       (1.10, ''Previous Timely Payments'')]"
    using assms(3-) by (simp add: triggered_def adjustment_steps_def)
  have base: "base_limit_unadjusted r = 500000" "\<not> base_limit_cap_applied r"
    "base_limit_after_cap r = 500000"
    using assms(3,4) by (simp_all add: r calculation_base)
  have run: "apply_steps (500000, [])
      [(1.05, ''Current Ratio > 2''), (1.05, ''Years in Business > 10''),
       (1.10, ''Previous Timely Payments'')] =
      (606375, [\<lparr>reason = ''Current Ratio > 2'', change_percent = 5,
              limit_before = 500000, limit_after = 525000\<rparr>,
            \<lparr>reason = ''Years in Business > 10'', change_percent = 5,
              limit_before = 525000, limit_after = 551250\<rparr>,
            \<lparr>reason = ''Previous Timely Payments'', change_percent = 10,
              limit_before = 551250, limit_after = 606375\<rparr>])"
    by (simp add: apply_steps_Cons apply_steps_Nil)
  have adj: "adjusted_limit r = 606375"
    and dets: "adjustments r = snd (apply_steps (500000, [])
      [(1.05, ''Current Ratio > 2''), (1.05, ''Years in Business > 10''),
       (1.10, ''Previous Timely Payments'')])"
    using base(3) steps run by (simp_all add: r calculation_adjusted)
  have fin: "final_limit r = 606375" "min_max_applied r = None"
    using adj by (simp_all add: r calculation_final)
  show ?thesis using base adj dets fin run by simp
qed

theorem trading_example_witness:
  "credit_limit_calculator example_form =
     Some (Calculated (calculation example_form example_inputs 3)) \<and>
   data_cleaning example_form = Some example_inputs \<and>
   revenue example_inputs = 10000000 \<and> industry_type example_form = Some Trading \<and>
   current_assets example_inputs / current_liabilities example_inputs = 3 \<and>
   base_limit_unadjusted (calculation example_form example_inputs 3) = 500000 \<and>
   final_limit (calculation example_form example_inputs 3) = 606375 \<and>
   min_max_applied (calculation example_form example_inputs 3) = None"
proof -
  have h: "revenue example_inputs = 10000000" "industry_type example_form = Some Trading"
    "\<not> exposure_outstanding example_inputs > revenue example_inputs * 0.3"
    "is_saudi example_form = Yes" "has_concentration example_form = No"
    "\<not> number_of_projects example_inputs < 3"
    "current_assets example_inputs / current_liabilities example_inputs > 2"
    "years_of_operation example_inputs > 10"
    "has_previous_payments example_form = Yes" "has_payment_delays example_form = No"
    "current_assets example_inputs / current_liabilities example_inputs = 3"
    by (simp_all add: example_form_def example_inputs_def)
  from trading_example [OF example_calculator(1) example_cleaning(1) h(1-10)]
  show ?thesis using example_calculator(1) example_cleaning(1) h by simp
qed

lemma validation_messages:
  "''Requested Limit > 0.'' \<in> set (validation f i) \<longleftrightarrow> requested_limit i \<le> 0"
  "''Revenue > 0.'' \<in> set (validation f i) \<longleftrightarrow> revenue i \<le> 0"
  "''Exposure >= 0.'' \<in> set (validation f i) \<longleftrightarrow> exposure_outstanding i < 0"
  "''Industry Type required.'' \<in> set (validation f i) \<longleftrightarrow> industry_type f = None"
  "''Unbilled Revenue required.'' \<in> set (validation f i) \<longleftrightarrow>
     industry_type f = Some Contractor \<and> strip (unbilled_revenue_str f) = []"
  "''Unbilled Revenue > 0.'' \<in> set (validation f i) \<longleftrightarrow>
     industry_type f = Some Contractor \<and> strip (unbilled_revenue_str f) \<noteq> [] \<and>
     unbilled_revenue i \<le> 0"
  "''Years Op > 0.'' \<in> set (validation f i) \<longleftrightarrow> years_of_operation i \<le> 0"
  "''Projects >= 1.'' \<in> set (validation f i) \<longleftrightarrow> number_of_projects i < 1"
  "''Net Profit % required.'' \<in> set (validation f i) \<longleftrightarrow>
     strip (net_profit_percentage_str f) = []"
  "''Net Profit % must be > 0.'' \<in> set (validation f i) \<longleftrightarrow>
     strip (net_profit_percentage_str f) \<noteq> [] \<and> net_profit_percentage i \<le> 0"
  "''Current Assets required.'' \<in> set (validation f i) \<longleftrightarrow>
     strip (current_assets_str f) = []"
  "''Current Liabilities required.'' \<in> set (validation f i) \<longleftrightarrow>
     strip (current_liabilities_str f) = []"
  "''Current Assets > 0.'' \<in> set (validation f i) \<longleftrightarrow> current_assets i \<le> 0"
  "''Current Liabilities > 0.'' \<in> set (validation f i) \<longleftrightarrow> current_liabilities i \<le> 0"
  by (simp_all add: validation_mem)





section \<open>Properties of the Profitability Calculator\<close>

text \<open>
  Claim C9. Every deal that the form stages carries
  \<open>monthly_profit = deal_size * (monthly_rate / 100)\<close>,
  \<open>total_profit = monthly_profit * months\<close>,
  \<open>admin_fee_amount = deal_size * (admin_fee / 100)\<close> and
  \<open>gross_profit = total_profit + admin_fee_amount\<close>. The witness is the deal of
  200000 at 3% a month, a fee of 1.5% and 4 months: 6000, 24000, 3000 and 27000.
\<close>

theorem add_deal_profit:
  assumes "name \<noteq> []" and "0 < dsize"
  shows "\<exists>d. add_deal now name dsize rate fee_perc m unsaved = unsaved @ [d] \<and>
           client_name d = name \<and> deal_size d = dsize \<and> monthly_rate d = rate \<and>
           admin_fee d = fee_perc \<and> months d = m \<and>
           monthly_profit d = dsize * (rate / 100) \<and>
           total_profit d = monthly_profit d * of_int m \<and>
           admin_fee_amount d = dsize * (fee_perc / 100) \<and>
           gross_profit d = total_profit d + admin_fee_amount d"
  using assms by (simp add: add_deal_def Let_def)

theorem add_deal_profit_witness:
  "''Client'' \<noteq> [] \<and> (0::real) < 200000 \<and>
   (\<exists>d. add_deal ''2024-01-01T00:00:00'' ''Client'' 200000 3 1.5 4 [] = [d] \<and>
        monthly_profit d = 6000 \<and> total_profit d = 24000 \<and>
        admin_fee_amount d = 3000 \<and> gross_profit d = 27000)"
  using add_deal_profit [of "''Client''" 200000 "''2024-01-01T00:00:00''" 3 "1.5" 4 "[]"]
  by auto

lemma save_deal_bundle_True:
  "save_deal_bundle_to_db user_id session_token deals store \<longleftrightarrow>
     deals \<noteq> [] \<and>
     (\<exists>uid rows. user_id = Some uid \<and> uid \<noteq> [] \<and> \<not> falsy session_token \<and>
        prepared_deals uid deals \<noteq> [] \<and>
        store (prepared_deals uid deals) = Response None rows \<and> rows \<noteq> [] \<and>
        length rows = length (prepared_deals uid deals))"
proof (cases user_id)
  case None
  then show ?thesis by (simp add: save_deal_bundle_to_db_def)
next
  case (Some uid)
  show ?thesis
    by (cases "store (prepared_deals uid deals)")
      (auto simp add: Some save_deal_bundle_to_db_def Let_def)
qed

lemma save_all_staged_cases:
  "save_all_staged user_id session_token store unsaved =
     (if save_deal_bundle_to_db user_id session_token unsaved store then [] else unsaved)"
  by (auto simp add: save_all_staged_def Let_def save_deal_bundle_True)

text \<open>
  Claim C7. The rows submitted to the store are the staged deals that pass the test of line
  88, with the user id. A click on the save button leaves the staged list as it is whenever
  the store answers with a number of rows other than the number of rows submitted; the list
  changes only by being emptied, and only when the store answered without error with exactly
  as many rows as were submitted; and such an answer does empty it.
\<close>

theorem save_all_staged_count:
  fixes store :: "db_deal list \<Rightarrow> 'row store_reply"
  shows
  "(\<forall>uid err rows. user_id = Some uid \<and>
       store (prepared_deals uid unsaved) = Response err rows \<and>
       length rows \<noteq> length (prepared_deals uid unsaved) \<longrightarrow>
       save_all_staged user_id session_token store unsaved = unsaved) \<and>
   (save_all_staged user_id session_token store unsaved \<noteq> unsaved \<longrightarrow>
       save_all_staged user_id session_token store unsaved = [] \<and>
       (\<exists>uid rows. user_id = Some uid \<and>
          store (prepared_deals uid unsaved) = Response None rows \<and>
          length rows = length (prepared_deals uid unsaved))) \<and>
   (\<forall>uid rows. user_id = Some uid \<and> uid \<noteq> [] \<and> \<not> falsy session_token \<and>
       prepared_deals uid unsaved \<noteq> [] \<and>
       store (prepared_deals uid unsaved) = Response None rows \<and>
       length rows = length (prepared_deals uid unsaved) \<longrightarrow>
       save_all_staged user_id session_token store unsaved = [])"
proof -
  have kept: "save_all_staged user_id session_token store unsaved = unsaved"
    if "user_id = Some uid" "store (prepared_deals uid unsaved) = Response err rows"
      "length rows \<noteq> length (prepared_deals uid unsaved)" for uid err rows
    using that by (auto simp add: save_all_staged_cases save_deal_bundle_True)
  have changed: "save_all_staged user_id session_token store unsaved = [] \<and>
       (\<exists>uid rows. user_id = Some uid \<and>
          store (prepared_deals uid unsaved) = Response None rows \<and>
          length rows = length (prepared_deals uid unsaved))"
    if "save_all_staged user_id session_token store unsaved \<noteq> unsaved"
    using that by (auto simp add: save_all_staged_cases save_deal_bundle_True split: if_splits)
  have cleared: "save_all_staged user_id session_token store unsaved = []"
    if "user_id = Some uid" "uid \<noteq> []" "\<not> falsy session_token"
      "prepared_deals uid unsaved \<noteq> []"
      "store (prepared_deals uid unsaved) = Response None rows"
      "length rows = length (prepared_deals uid unsaved)" for uid rows
  proof -
    from that(4,6) have "rows \<noteq> []" by auto
    moreover from that(4) have "unsaved \<noteq> []" by (auto simp add: prepared_deals_def)
    ultimately show ?thesis
      using that by (auto simp add: save_all_staged_cases save_deal_bundle_True)
  qed
  from kept changed cleared show ?thesis by blast
qed

lemma example_prepared:
  "length (prepared_deals ''u1'' example_deals) = 2" "length example_deals = 2"
  by (simp_all add: example_deals_def add_deal_def prepared_deals_def valid_deal_def Let_def)

theorem save_all_staged_count_witness:
  "store_partial (prepared_deals ''u1'' example_deals) =
     Response None (tl (prepared_deals ''u1'' example_deals)) \<and>
   length (tl (prepared_deals ''u1'' example_deals)) \<noteq> length (prepared_deals ''u1'' example_deals) \<and>
   save_all_staged (Some ''u1'') (Some ''token'') store_partial example_deals = example_deals \<and>
   store_all (prepared_deals ''u1'' example_deals) =
     Response None (prepared_deals ''u1'' example_deals) \<and>
   save_all_staged (Some ''u1'') (Some ''token'') store_all example_deals = [] \<and>
   example_deals \<noteq> []"
proof -
  have p: "store_partial (prepared_deals ''u1'' example_deals) =
      Response None (tl (prepared_deals ''u1'' example_deals))"
    by (simp add: store_partial_def)
  have l: "length (tl (prepared_deals ''u1'' example_deals)) \<noteq>
      length (prepared_deals ''u1'' example_deals)"
    by (simp add: example_prepared)
  have a: "store_all (prepared_deals ''u1'' example_deals) =
      Response None (prepared_deals ''u1'' example_deals)"
    by (simp add: store_all_def)
  have ne: "prepared_deals ''u1'' example_deals \<noteq> []" "example_deals \<noteq> []"
    using example_prepared by auto
  have f: "\<not> falsy (Some ''token'')" by (simp add: falsy_def)
  from save_all_staged_count [where user_id = "Some ''u1''" and store = store_partial
      and unsaved = example_deals and session_token = "Some ''token''"] p l
  have kept: "save_all_staged (Some ''u1'') (Some ''token'') store_partial example_deals =
      example_deals"
    by blast
  from save_all_staged_count [where user_id = "Some ''u1''" and store = store_all
      and unsaved = example_deals and session_token = "Some ''token''"] a ne f
  have cleared: "save_all_staged (Some ''u1'') (Some ''token'') store_all example_deals = []"
    by auto
  from p l a ne kept cleared show ?thesis by simp
qed

section \<open>Properties of the Murabahah schedule\<close>

lemma month_entry_profit [simp]:
  "profit (month_entry fi su fee rate p rem m) = rem * rate"
  by (simp add: month_entry_def Let_def)

lemma month_entry_month [simp]:
  "month (month_entry fi su fee rate p rem m) = m"
  by (simp add: month_entry_def Let_def)

lemma month_entry_final [simp]:
  "principal_paid (month_entry fi su fee rate p rem p) = rem"
  by (simp add: month_entry_def Let_def)

lemma month_entry_nonneg:
  "m \<noteq> p \<Longrightarrow> 0 \<le> principal_paid (month_entry fi su fee rate p rem m)"
  by (simp add: month_entry_def Let_def)

lemma schedule_rows_length [simp]:
  "length (schedule_rows fi su fee rate p rem ms) = length ms"
  by (induction ms arbitrary: rem) (simp_all add: Let_def)

lemma schedule_rows_sum:
  "ms \<noteq> [] \<Longrightarrow> last ms = p \<Longrightarrow>
   sum_list (map principal_paid (schedule_rows fi su fee rate p rem ms)) = rem"
proof (induction ms arbitrary: rem)
  case Nil
  then show ?case by simp
next
  case (Cons m ms)
  show ?case
  proof (cases "ms = []")
    case True
    with Cons.prems show ?thesis by (simp add: Let_def)
  next
    case False
    with Cons.prems have "last ms = p" by simp
    from Cons.IH [OF False this] show ?thesis by (simp add: Let_def)
  qed
qed

lemma schedule_rows_profit:
  "k < length ms \<Longrightarrow>
   profit (schedule_rows fi su fee rate p rem ms ! k) =
     (rem - sum_list (map principal_paid (take k (schedule_rows fi su fee rate p rem ms)))) * rate"
proof (induction ms arbitrary: rem k)
  case Nil
  then show ?case by simp
next
  case (Cons m ms)
  show ?case
  proof (cases k)
    case 0
    then show ?thesis by (simp add: Let_def)
  next
    case (Suc j)
    with Cons.prems have "j < length ms" by simp
    from Cons.IH [OF this] Suc show ?thesis by (simp add: Let_def diff_diff_eq)
  qed
qed

lemma schedule_rows_principal_nonneg:
  "k < length ms \<Longrightarrow> ms ! k \<noteq> p \<Longrightarrow>
   0 \<le> principal_paid (schedule_rows fi su fee rate p rem ms ! k)"
proof (induction ms arbitrary: rem k)
  case Nil
  then show ?case by simp
next
  case (Cons m ms)
  show ?case
  proof (cases k)
    case 0
    with Cons.prems show ?thesis by (simp add: Let_def month_entry_nonneg)
  next
    case (Suc j)
    with Cons.prems have "j < length ms" "ms ! j \<noteq> p" by simp_all
    from Cons.IH [OF this] Suc show ?thesis by (simp add: Let_def)
  qed
qed

lemma month_entry_final_remaining [simp]:
  "remaining_principal (month_entry fi su fee rate p rem p) = 0"
  by (simp add: month_entry_def Let_def)

lemma schedule_rows_last:
  "ms \<noteq> [] \<Longrightarrow> last ms = p \<Longrightarrow>
   remaining_principal (last (schedule_rows fi su fee rate p rem ms)) = 0 \<and>
   principal_paid (last (schedule_rows fi su fee rate p rem ms)) =
     rem - sum_list (map principal_paid (butlast (schedule_rows fi su fee rate p rem ms)))"
proof (induction ms arbitrary: rem)
  case Nil
  then show ?case by simp
next
  case (Cons m ms)
  show ?case
  proof (cases "ms = []")
    case True
    with Cons.prems show ?thesis by (simp add: Let_def)
  next
    case False
    with Cons.prems have l: "last ms = p" by simp
    let ?row = "month_entry fi su fee rate p rem m"
    let ?rows = "schedule_rows fi su fee rate p (rem - principal_paid ?row) ms"
    have ne: "?rows \<noteq> []"
      using False by (metis length_0_conv schedule_rows_length)
    from Cons.IH [OF False l, of "rem - principal_paid ?row"] ne
    show ?thesis by (simp add: Let_def diff_diff_eq)
  qed
qed

lemma upto_1_last: "1 \<le> n \<Longrightarrow> [1..n] \<noteq> [] \<and> last [1..n] = n"
  using upto_rec2 [of 1 n] by simp

lemma murabahah_schedule:
  assumes "0 < dsize" "1 \<le> py_int period"
  shows "payment_schedule (murabahah_calculator dsize rate period fee) =
     schedule_rows
       (base_repayment_per_month dsize rate (py_int period) + mur_admin_fee_amount dsize fee)
       (base_repayment_per_month dsize rate (py_int period)) (mur_admin_fee_amount dsize fee)
       (rate / 100) (py_int period) dsize [1..py_int period]"
  using assms by (simp add: murabahah_calculator_def Let_def monthly_profit_rate_dec_def)



text \<open>
  Claim C5. For a deal size above 0 and a period \<open>n\<close> of at least one month: the fee
  amount is \<open>dsize * (fee / 100)\<close>, the total profit amount is
  \<open>dsize * (rate / 100) * n\<close>, the total earnings are their sum, the first payment is
  \<open>(dsize + total profit amount) / n\<close> plus the fee amount, the later payments are
  \<open>(dsize + total profit amount) / n\<close>; the schedule has one row a month, and the
  profit of a row is the rate times the principal remaining at the start of its month, that
  is the deal size less the principal paid in the rows before. With a rate that is not
  negative the profit never rises from one month to the next.
\<close>

theorem murabahah_figures:
  fixes dsize rate period fee :: real
  defines "n \<equiv> py_int period"
  defines "r \<equiv> murabahah_calculator dsize rate period fee"
  assumes "0 < dsize" and "1 \<le> n"
  shows "total_admin_fee r = dsize * (fee / 100) \<and>
         total_profit_amount dsize rate n = dsize * (rate / 100) * of_int n \<and>
         total_earnings r = total_profit_amount dsize rate n + total_admin_fee r \<and>
         first_month_payment r =
           (dsize + total_profit_amount dsize rate n) / of_int n + total_admin_fee r \<and>
         subsequent_monthly_payment r = (dsize + total_profit_amount dsize rate n) / of_int n \<and>
         length (payment_schedule r) = nat n \<and>
         (\<forall>k < nat n.
            month (payment_schedule r ! k) = int k + 1 \<and>
            profit (payment_schedule r ! k) =
              (dsize - sum_list (map principal_paid (take k (payment_schedule r)))) * (rate / 100)) \<and>
         (0 \<le> rate \<longrightarrow>
            (\<forall>k. Suc k < nat n \<longrightarrow>
               profit (payment_schedule r ! Suc k) \<le> profit (payment_schedule r ! k)))"
proof -
  have pos: "0 < n" using assms by simp
  have figs: "total_admin_fee r = dsize * (fee / 100)"
    "total_profit_amount dsize rate n = dsize * (rate / 100) * of_int n"
    "total_earnings r = total_profit_amount dsize rate n + total_admin_fee r"
    "first_month_payment r =
           (dsize + total_profit_amount dsize rate n) / of_int n + total_admin_fee r"
    "subsequent_monthly_payment r = (dsize + total_profit_amount dsize rate n) / of_int n"
    using assms(3) pos unfolding r_def n_def
    by (simp_all add: murabahah_calculator_def Let_def mur_admin_fee_amount_def
        total_profit_amount_def monthly_profit_rate_dec_def base_repayment_per_month_def)
  let ?fi = "base_repayment_per_month dsize rate n + mur_admin_fee_amount dsize fee"
  let ?su = "base_repayment_per_month dsize rate n"
  let ?rows = "schedule_rows ?fi ?su (mur_admin_fee_amount dsize fee) (rate / 100) n dsize [1..n]"
  have sched: "payment_schedule r = ?rows"
    using assms(3,4) unfolding r_def n_def by (rule murabahah_schedule)
  have len: "length (payment_schedule r) = nat n"
    using pos by (simp add: sched)
  have months: "month (?rows ! k) = int k + 1" if "k < nat n" for k
    using that
  proof -
    have "month (schedule_rows fi su fe ra p rem ms ! j) = ms ! j" if "j < length ms"
      for fi su fe ra p rem ms j
      using that
    proof (induction ms arbitrary: rem j)
      case Nil
      then show ?case by simp
    next
      case (Cons m ms)
      then show ?case by (cases j) (simp_all add: Let_def)
    qed
    from this [of k "[1..n]"] that show ?thesis by simp
  qed
  have prof: "profit (?rows ! k) =
      (dsize - sum_list (map principal_paid (take k ?rows))) * (rate / 100)" if "k < nat n" for k
    using that schedule_rows_profit [of k "[1..n]"] by simp
  have decl: "profit (?rows ! Suc k) \<le> profit (?rows ! k)" if "0 \<le> rate" "Suc k < nat n" for k
  proof -
    have k: "k < nat n" using that by simp
    have "[1..n] ! k \<noteq> n" using that by simp
    with k have nonneg: "0 \<le> principal_paid (?rows ! k)"
      using schedule_rows_principal_nonneg [of k "[1..n]" n] by simp
    define S where "S = sum_list (map principal_paid (take k ?rows))"
    define P where "P = principal_paid (?rows ! k)"
    have "take (Suc k) ?rows = take k ?rows @ [?rows ! k]"
      using k by (simp add: take_Suc_conv_app_nth)
    then have "sum_list (map principal_paid (take (Suc k) ?rows)) = S + P"
      by (simp add: S_def P_def)
    then have e1: "profit (?rows ! Suc k) = (dsize - (S + P)) * (rate / 100)"
      using prof [OF that(2)] by simp
    have e0: "profit (?rows ! k) = (dsize - S) * (rate / 100)"
      using prof [OF k] by (simp add: S_def)
    have "0 \<le> P" using nonneg by (simp add: P_def)
    then have "dsize - (S + P) \<le> dsize - S" by simp
    moreover have "0 \<le> rate / 100" using that(1) by simp
    ultimately have "(dsize - (S + P)) * (rate / 100) \<le> (dsize - S) * (rate / 100)"
      by (rule mult_right_mono)
    then show ?thesis by (simp only: e0 e1)
  qed
  show ?thesis
    using figs len months prof decl by (simp add: sched)
qed

theorem murabahah_figures_witness:
  "(0::real) < 100000 \<and> 1 \<le> py_int 3 \<and>
   total_admin_fee (murabahah_calculator 100000 2.5 3 1.5) = 1500 \<and>
   total_profit_amount 100000 2.5 (py_int 3) = 7500 \<and>
   total_earnings (murabahah_calculator 100000 2.5 3 1.5) = 9000 \<and>
   first_month_payment (murabahah_calculator 100000 2.5 3 1.5) = 112000 / 3 \<and>
   subsequent_monthly_payment (murabahah_calculator 100000 2.5 3 1.5) = 107500 / 3 \<and>
   map profit (payment_schedule (murabahah_calculator 100000 2.5 3 1.5)) =
     [2500, 5000 / 3, 1625 / 2]"
proof -
  have p: "py_int 3 = 3" by (simp add: py_int_def)
  have rows: "map profit (payment_schedule (murabahah_calculator 100000 2.5 3 1.5)) =
     [2500, 5000 / 3, 1625 / 2]"
    by code_simp
  from murabahah_figures [where dsize = 100000 and period = 3 and rate = "2.5" and fee = "1.5"] p rows show ?thesis
    by (simp add: total_profit_amount_def monthly_profit_rate_dec_def)
qed

end
